theory Spec2Isabelle
  imports Complex_Main "HOL-Library.Finite_Map"
begin

section \<open>Errors, machine integers, instants\<close>

text \<open>
  A Go function of this repository either returns, returns a non-nil \<open>error\<close>, or
  panics. Both failures are values of the model: \<open>Panic\<close> is the fatal one (it unwinds the
  whole program, \<open>main\<close> never recovers), \<open>Error\<close> is the recoverable one that the caller
  receives as its \<open>err\<close> result.
\<close>

datatype error = Panic string | Error string

fun is_panic :: "error + 'a \<Rightarrow> bool" where
  "is_panic (Inl (Panic _)) = True"
| "is_panic _ = False"

fun is_error :: "error + 'a \<Rightarrow> bool" where
  "is_error (Inl (Error _)) = True"
| "is_error _ = False"

text \<open>\<open>int64\<close>: the range, and the wrap-around of an arithmetic result that leaves it.\<close>

definition in_int64 :: "int \<Rightarrow> bool" where
  "in_int64 x = (- (2 ^ 63) \<le> x \<and> x < 2 ^ 63)"

definition int64_wrap :: "int \<Rightarrow> int" where
  "int64_wrap x = (x + 2 ^ 63) mod 2 ^ 64 - 2 ^ 63"

text \<open>
  \<open>float64\<close>: the claims only move floats around (copy them, print them as JSON numbers,
  truncate them to integers); no claim depends on rounding. A finite float is modelled by
  the rational it denotes, the three special values are constructors of their own.
\<close>

datatype float64 = Finite rat | PosInf | NegInf | NaN

text \<open>
  The conversion \<open>int64(f)\<close> truncates towards zero. For a value outside the range of
  \<open>int64\<close> Go leaves the result to the implementation; the model takes the smallest
  \<open>int64\<close>, as amd64 does.
\<close>

definition float64_to_int64 :: "float64 \<Rightarrow> int" where
  "float64_to_int64 f =
     (case f of
        Finite r \<Rightarrow>
          (let t = (if r < 0 then \<lceil>r\<rceil> else \<lfloor>r\<rfloor>)
           in if in_int64 t then t else - (2 ^ 63))
      | _ \<Rightarrow> - (2 ^ 63))"

text \<open>
  \<open>time.Time\<close> is modelled by the instant it denotes, in nanoseconds since the Unix epoch,
  and \<open>time.Duration\<close> by its nanoseconds. Location and monotonic clock reading are left
  out: comparisons (\<open>==\<close>, \<open>!=\<close>, \<open>After\<close>, \<open>IsZero\<close>) are comparisons of instants, and
  instants are unbounded.
\<close>

type_synonym time = int
type_synonym duration = int

abbreviation (input) Millisecond :: duration where "Millisecond \<equiv> 1000000"
abbreviation (input) Second :: duration where "Second \<equiv> 1000000000"
abbreviation (input) Minute :: duration where "Minute \<equiv> 60000000000"
abbreviation (input) Hour :: duration where "Hour \<equiv> 3600000000000"

definition time_Unix :: "int \<Rightarrow> int \<Rightarrow> time" where
  "time_Unix sec nsec = sec * Second + nsec"

definition time_UnixMilli :: "int \<Rightarrow> time" where
  "time_UnixMilli msec = msec * Millisecond"

text \<open>The method \<open>t.UnixMilli()\<close>: whole milliseconds since the epoch, as an \<open>int64\<close>.\<close>

definition UnixMilli :: "time \<Rightarrow> int" where
  "UnixMilli t = int64_wrap (t div Millisecond)"

definition Add :: "time \<Rightarrow> duration \<Rightarrow> time" where
  "Add t d = t + d"

definition After :: "time \<Rightarrow> time \<Rightarrow> bool" where
  "After t u = (u < t)"

text \<open>The zero \<open>time.Time\<close> is January 1 of year 1, 00:00 UTC.\<close>

definition zeroTime :: time where
  "zeroTime = time_Unix (- 62135596800) 0"

definition IsZero :: "time \<Rightarrow> bool" where
  "IsZero t = (t = zeroTime)"

section \<open>Scale\<close>

type_synonym scale = string

abbreviation (input) Scale1Second :: scale where "Scale1Second \<equiv> ''1S''"
abbreviation (input) Scale1Minute :: scale where "Scale1Minute \<equiv> ''1MIN''"
abbreviation (input) Scale1Hour :: scale where "Scale1Hour \<equiv> ''1H''"
abbreviation (input) Scale1Day :: scale where "Scale1Day \<equiv> ''1D''"
abbreviation (input) Scale1Week :: scale where "Scale1Week \<equiv> ''1W''"
abbreviation (input) Scale1Month :: scale where "Scale1Month \<equiv> ''1MON''"
abbreviation (input) Sscale1Year :: scale where "Sscale1Year \<equiv> ''1Y''"

definition scaleDurations :: "scale \<rightharpoonup> duration" where
  "scaleDurations =
     [Scale1Second \<mapsto> Second,
      Scale1Minute \<mapsto> Minute,
      Scale1Hour \<mapsto> Hour,
      Scale1Day \<mapsto> Hour * 24,
      Scale1Week \<mapsto> Hour * 24 * 7]"

text \<open>
  \<open>Duration\<close> and \<open>PageSize\<close> have no error result: a Scale missing from the table
  makes them panic. The message is the source's, without the quotes that \<open>%q\<close> puts
  around the Scale.
\<close>

definition Duration :: "scale \<Rightarrow> error + duration" where
  "Duration s =
     (case scaleDurations s of
        None \<Rightarrow> Inl (Panic (''Unknown duration for scale '' @ s))
      | Some d \<Rightarrow> Inr d)"

definition scalePageSize :: "scale \<rightharpoonup> duration" where
  "scalePageSize =
     [Scale1Second \<mapsto> 4000 * Second,
      Scale1Minute \<mapsto> 800 * Minute,
      Scale1Hour \<mapsto> 800 * Hour]"

definition PageSize :: "scale \<Rightarrow> error + duration" where
  "PageSize s =
     (case scalePageSize s of
        None \<Rightarrow> Inl (Panic (''Unknown scale page size for scale '' @ s))
      | Some d \<Rightarrow> Inr d)"

section \<open>The data model of the wire codec\<close>

text \<open>
  A Go map is a finite map. The source tells the nil map from the empty one
  (\<open>Metric.UnmarshalJSON\<close> stores nil for an empty label mapping), so \<open>Labels\<close> is an
  option: \<open>None\<close> is the nil map. A slice is a list; nil and empty slices are both \<open>[]\<close>.
  \<open>jseries\<close> is the struct that is encoded: its \<open>Metric\<close> field is \<open>doc_Metric\<close> here.
\<close>

record metric =
  Name :: string
  Labels :: "(string, string) fmap option"

record sample =
  Value :: float64
  Timestamp :: time

record series =
  Metric :: metric
  Samples :: "sample list"

record jseries =
  doc_Metric :: metric
  Values :: "float64 list"
  Timestamps :: "int list"

definition zero_metric :: metric where
  "zero_metric = \<lparr>Name = [], Labels = None\<rparr>"

definition zero_series :: series where
  "zero_series = \<lparr>Metric = zero_metric, Samples = []\<rparr>"

definition zero_jseries :: jseries where
  "zero_jseries = \<lparr>doc_Metric = zero_metric, Values = [], Timestamps = []\<rparr>"

section \<open>encoding/json\<close>

text \<open>
  The codec calls the standard library's \<open>encoding/json\<close> for the text. The library is
  modelled at the level of the document: a JSON text is the value it denotes, and what
  \<open>json.Unmarshal\<close> does for each Go type the codec decodes into is a function on these
  values. An object is a finite map from its keys (a repeated key keeps its last value,
  the order of the keys does not matter to any decoder here). A number is the rational it
  denotes, within the range of \<open>float64\<close>; decoding into \<open>float64\<close> does not round in
  the model, and the spelling of the literal is not kept (the library refuses \<open>1e3\<close> for
  an \<open>int64\<close>, the model reads 1000). Strings are text the library writes and reads
  back unchanged. Field names are matched exactly.
\<close>

datatype json =
    JNull
  | JBool bool
  | JNumber rat
  | JString string
  | JArray "json list"
  | JObject "(string, json) fmap"

text \<open>Decoding or encoding the elements of an array in order, stopping at the first error.\<close>

fun traverse :: "('a \<Rightarrow> error + 'b) \<Rightarrow> 'a list \<Rightarrow> error + 'b list" where
  "traverse f [] = Inr []"
| "traverse f (x # xs) =
     (case f x of
        Inl e \<Rightarrow> Inl e
      | Inr y \<Rightarrow> (case traverse f xs of Inl e \<Rightarrow> Inl e | Inr ys \<Rightarrow> Inr (y # ys)))"

text \<open>
  \<open>json.Unmarshal\<close> into a \<open>map[string]string\<close> that already exists: \<open>null\<close> leaves the
  map as it is, an object adds its entries (a \<open>null\<close> value is the empty string), anything
  else, or a value that is not a string, is an error. \<open>json.Marshal\<close> of such a map never
  fails.
\<close>

fun is_string_or_null :: "json \<Rightarrow> bool" where
  "is_string_or_null (JString _) = True"
| "is_string_or_null JNull = True"
| "is_string_or_null _ = False"

fun string_of :: "json \<Rightarrow> string" where
  "string_of (JString s) = s"
| "string_of _ = []"

fun unmarshal_string_map :: "json \<Rightarrow> (string, string) fmap \<Rightarrow> error + (string, string) fmap" where
  "unmarshal_string_map JNull labels = Inr labels"
| "unmarshal_string_map (JObject m) labels =
     (if fmpred (\<lambda>_. is_string_or_null) m then Inr (labels ++\<^sub>f fmmap string_of m)
      else Inl (Error ''json: cannot unmarshal into Go value of type string''))"
| "unmarshal_string_map _ labels =
     Inl (Error ''json: cannot unmarshal into Go value of type map[string]string'')"

definition marshal_string_map :: "(string, string) fmap \<Rightarrow> json" where
  "marshal_string_map val = JObject (fmmap JString val)"

text \<open>
  Decoding into \<open>float64\<close>, \<open>int64\<close>, a slice, and \<open>[]any\<close>. A \<open>null\<close> element leaves
  the zero value, a \<open>null\<close> array is the nil slice. An element of an \<open>[]any\<close> keeps its
  dynamic type: it is modelled by the JSON value itself (\<open>JNumber\<close> is a \<open>float64\<close>,
  \<open>JString\<close> a \<open>string\<close>).
\<close>

fun unmarshal_float64 :: "json \<Rightarrow> error + float64" where
  "unmarshal_float64 (JNumber r) = Inr (Finite r)"
| "unmarshal_float64 JNull = Inr (Finite 0)"
| "unmarshal_float64 _ = Inl (Error ''json: cannot unmarshal into Go value of type float64'')"

fun unmarshal_int64 :: "json \<Rightarrow> error + int" where
  "unmarshal_int64 (JNumber r) =
     (if of_int \<lfloor>r\<rfloor> = r \<and> in_int64 \<lfloor>r\<rfloor> then Inr \<lfloor>r\<rfloor>
      else Inl (Error ''json: cannot unmarshal number into Go value of type int64''))"
| "unmarshal_int64 JNull = Inr 0"
| "unmarshal_int64 _ = Inl (Error ''json: cannot unmarshal into Go value of type int64'')"

fun unmarshal_slice :: "(json \<Rightarrow> error + 'a) \<Rightarrow> json \<Rightarrow> error + 'a list" where
  "unmarshal_slice f JNull = Inr []"
| "unmarshal_slice f (JArray xs) = traverse f xs"
| "unmarshal_slice f _ = Inl (Error ''json: cannot unmarshal into Go value of slice type'')"


text \<open>Encoding: a \<open>float64\<close> that is not finite is an \<open>UnsupportedValueError\<close>.\<close>

fun marshal_float64 :: "float64 \<Rightarrow> error + json" where
  "marshal_float64 (Finite r) = Inr (JNumber r)"
| "marshal_float64 _ = Inl (Error ''json: unsupported value'')"

definition marshal_int64 :: "int \<Rightarrow> json" where
  "marshal_int64 i = JNumber (of_int i)"

section \<open>Metric\<close>

text \<open>
  \<open>MarshalJSON\<close> copies the labels over a map that holds the name under \<open>__name__\<close>;
  \<open>UnmarshalJSON\<close> takes the name back out and stores nil for an empty rest.
\<close>

definition Metric_MarshalJSON :: "metric \<Rightarrow> json" where
  "Metric_MarshalJSON m =
     (let val = fmupd ''__name__'' (Name m) fmempty;
          val = (case Labels m of None \<Rightarrow> val | Some ls \<Rightarrow> val ++\<^sub>f ls)
      in marshal_string_map val)"

definition Metric_UnmarshalJSON :: "json \<Rightarrow> error + metric" where
  "Metric_UnmarshalJSON data =
     (case unmarshal_string_map data fmempty of
        Inl e \<Rightarrow> Inl e
      | Inr labels \<Rightarrow>
          (let name = (case fmlookup labels ''__name__'' of None \<Rightarrow> [] | Some n \<Rightarrow> n);
               labels = fmdrop ''__name__'' labels
           in Inr \<lparr>Name = name,
                   Labels = (if fmdom labels \<noteq> {||} then Some labels else None)\<rparr>))"

section \<open>Series\<close>

text \<open>
  \<open>jseries\<close> is encoded field by field; \<open>values\<close> and \<open>timestamps\<close> are left out when
  empty (\<open>omitempty\<close>). It is decoded field by field as well; a missing field keeps its
  zero value, other keys are ignored.
\<close>

definition marshal_jseries :: "jseries \<Rightarrow> error + json" where
  "marshal_jseries doc =
     (case traverse marshal_float64 (Values doc) of
        Inl e \<Rightarrow> Inl e
      | Inr vs \<Rightarrow>
          (let obj = fmupd ''metric'' (Metric_MarshalJSON (doc_Metric doc)) fmempty;
               obj = (if Values doc = [] then obj else fmupd ''values'' (JArray vs) obj);
               obj = (if Timestamps doc = [] then obj
                      else fmupd ''timestamps'' (JArray (map marshal_int64 (Timestamps doc))) obj)
           in Inr (JObject obj)))"

definition unmarshal_field :: "(json \<Rightarrow> error + 'a) \<Rightarrow> 'a \<Rightarrow> (string, json) fmap \<Rightarrow> string \<Rightarrow> error + 'a" where
  "unmarshal_field f z obj k = (case fmlookup obj k of None \<Rightarrow> Inr z | Some j \<Rightarrow> f j)"

fun unmarshal_jseries :: "json \<Rightarrow> error + jseries" where
  "unmarshal_jseries JNull = Inr zero_jseries"
| "unmarshal_jseries (JObject obj) =
     (case unmarshal_field Metric_UnmarshalJSON zero_metric obj ''metric'' of
        Inl e \<Rightarrow> Inl e
      | Inr m \<Rightarrow>
     (case unmarshal_field (unmarshal_slice unmarshal_float64) [] obj ''values'' of
        Inl e \<Rightarrow> Inl e
      | Inr vs \<Rightarrow>
     (case unmarshal_field (unmarshal_slice unmarshal_int64) [] obj ''timestamps'' of
        Inl e \<Rightarrow> Inl e
      | Inr ts \<Rightarrow> Inr \<lparr>doc_Metric = m, Values = vs, Timestamps = ts\<rparr>)))"
| "unmarshal_jseries _ = Inl (Error ''json: cannot unmarshal into Go value of type vmclient.jseries'')"

text \<open>
  \<open>Series.MarshalJSON\<close> ignores the error of \<open>enc.Encode\<close>. When encoding fails nothing
  has been written, and \<open>buf.Truncate(buf.Len() - 1)\<close> panics on the empty buffer.
\<close>

definition Series_MarshalJSON :: "series \<Rightarrow> error + json" where
  "Series_MarshalJSON s =
     (let doc = \<lparr>doc_Metric = Metric s,
                 Values = map Value (Samples s),
                 Timestamps = map (\<lambda>x. UnixMilli (Timestamp x)) (Samples s)\<rparr>
      in case marshal_jseries doc of
           Inl e \<Rightarrow> Inl (Panic ''bytes.Buffer: truncation out of range'')
         | Inr j \<Rightarrow> Inr j)"

text \<open>
  \<open>Series.UnmarshalJSON\<close> ranges over the values and indexes the timestamps with the same
  index: an index past the end of the timestamps is a run-time panic. The samples are
  appended to those the receiver already has.
\<close>

fun Series_UnmarshalJSON_loop ::
  "int list \<Rightarrow> nat \<Rightarrow> float64 list \<Rightarrow> sample list \<Rightarrow> error + sample list" where
  "Series_UnmarshalJSON_loop ts i [] samples = Inr samples"
| "Series_UnmarshalJSON_loop ts i (v # vs) samples =
     (if i < length ts
      then Series_UnmarshalJSON_loop ts (Suc i) vs
             (samples @ [\<lparr>Value = v, Timestamp = time_UnixMilli (ts ! i)\<rparr>])
      else Inl (Panic ''runtime error: index out of range''))"

definition Series_UnmarshalJSON :: "json \<Rightarrow> series \<Rightarrow> error + series" where
  "Series_UnmarshalJSON b s =
     (case unmarshal_jseries b of
        Inl e \<Rightarrow> Inl e
      | Inr doc \<Rightarrow>
          (case Series_UnmarshalJSON_loop (Timestamps doc) 0 (Values doc) (Samples s) of
             Inl e \<Rightarrow> Inl e
           | Inr samples \<Rightarrow> Inr \<lparr>Metric = doc_Metric doc, Samples = samples\<rparr>))"

section \<open>Sample\<close>



section \<open>The round trip of a Series\<close>

text \<open>
  Encoding a Series and decoding the result into a fresh Series; the Series with an empty
  label mapping replaced by nil; and the floats that JSON can carry.
\<close>

definition Series_roundtrip :: "series \<Rightarrow> error + series" where
  "Series_roundtrip s =
     (case Series_MarshalJSON s of
        Inl e \<Rightarrow> Inl e
      | Inr j \<Rightarrow> Series_UnmarshalJSON j zero_series)"




section \<open>The history paginator\<close>

text \<open>
  A slot of the upstream's usage list is a \<open>*float64\<close>: \<open>None\<close> is the nil slot.
  \<open>GetHistoryPage\<close> is one HTTP request; the model takes it as a function of the page's
  bounds (device, channel, scale and unit are those of the \<open>GetHistory\<close> call) and
  records every request \<open>GetHistory\<close> issues, in order, beside its result.
\<close>

type_synonym slot = "float64 option"
type_synonym page_fetch = "time \<Rightarrow> time \<Rightarrow> error + (time \<times> slot list)"

function GetHistory_loop ::
  "page_fetch \<Rightarrow> scale \<Rightarrow> time \<Rightarrow> time \<Rightarrow> time \<Rightarrow> slot list \<Rightarrow> (time \<times> time) list \<Rightarrow>
     (time \<times> time) list \<times> (error + time \<times> slot list)" where
  "GetHistory_loop GetHistoryPage scale end start inst samples requests =
     (if start \<noteq> end then
        (case PageSize scale of
           Inl e \<Rightarrow> (requests, Inl e)
         | Inr pageSize \<Rightarrow>
             (let pageEnd = (if After end (Add start pageSize) then Add start pageSize else end)
              in case GetHistoryPage start pageEnd of
                   Inl e \<Rightarrow> (requests @ [(start, pageEnd)], Inl e)
                 | Inr (pinst, psamples) \<Rightarrow>
                     GetHistory_loop GetHistoryPage scale end pageEnd
                       (if IsZero inst then pinst else inst)
                       (samples @ psamples)
                       (requests @ [(start, pageEnd)])))
      else (requests, Inr (inst, samples)))"
  by pat_completeness auto
termination
proof (relation "measure (\<lambda>(_, _, end, start, _, _, _).
    if start = end then 0 else if end < start then 1 else nat (end - start) + 1)",
    goal_cases)
  case 1
  show ?case by simp
next
  case (2 GetHistoryPage scale "end" start inst samples requests pageSize pageEnd r pinst psamples)
  from \<open>PageSize scale = Inr pageSize\<close> have "0 < pageSize"
    by (auto simp: PageSize_def scalePageSize_def split: option.splits if_splits)
  with 2 show ?case
    by (auto simp: After_def Add_def)
qed

declare GetHistory_loop.simps [simp del]

definition GetHistory ::
  "page_fetch \<Rightarrow> scale \<Rightarrow> time \<Rightarrow> time \<Rightarrow> (time \<times> time) list \<times> (error + time \<times> slot list)" where
  "GetHistory GetHistoryPage scale start end =
     GetHistory_loop GetHistoryPage scale end start zeroTime [] []"

text \<open>The slots of a page response, and whether the request succeeded.\<close>

fun page_slots :: "error + (time \<times> slot list) \<Rightarrow> slot list" where
  "page_slots (Inr (_, psamples)) = psamples"
| "page_slots (Inl _) = []"

fun page_ok :: "error + (time \<times> slot list) \<Rightarrow> bool" where
  "page_ok (Inr _) = True"
| "page_ok (Inl _) = False"

text \<open>
  The pages of \<open>[start, end)\<close> at page size \<open>p\<close>, in order: page \<open>i\<close> starts at
  \<open>start + i * p\<close> and ends one page size later or at \<open>end\<close>, whichever is earlier.
  There are \<open>\<lceil>(end - start) / p\<rceil>\<close> of them.
\<close>

definition page_count :: "time \<Rightarrow> time \<Rightarrow> duration \<Rightarrow> nat" where
  "page_count start end p = nat ((end - start + p - 1) div p)"

definition page_bounds :: "time \<Rightarrow> time \<Rightarrow> duration \<Rightarrow> (time \<times> time) list" where
  "page_bounds start end p =
     map (\<lambda>i. (start + int i * p, min end (start + (int i + 1) * p)))
       [0..<page_count start end p]"

section \<open>The export driver\<close>

text \<open>
  \<open>vm.Query\<close> returns an \<open>any\<close>: a \<open>*Sample\<close> for a scalar result, a \<open>[]Series\<close> for a
  vector result. \<open>AnyOther\<close> stands for a value of any other dynamic type.
\<close>

datatype any_value = AnySample sample | AnySeriesList "series list" | AnyOther

text \<open>Lines 101 to 112 of \<open>exportHistory\<close>: the resume point.\<close>

definition resolveSince :: "any_value \<Rightarrow> time \<Rightarrow> scale \<Rightarrow> error + time" where
  "resolveSince existing since scale =
     (case existing of
        AnySeriesList series \<Rightarrow>
          (if length series = 1 \<and> length (Samples (series ! 0)) = 1 then
             (let sample = Samples (series ! 0) ! 0
              in case Duration scale of
                   Inl e \<Rightarrow> Inl e
                 | Inr d \<Rightarrow>
                     (let lastSample = Add (time_Unix (float64_to_int64 (Value sample)) 0) d
                      in if After lastSample since then Inr lastSample else Inr since))
           else Inr since)
      | _ \<Rightarrow> Inr since)"

record channel =
  Channel_Name :: string
  DeviceGID :: int
  ChannelNum :: string
  ChannelMultiplier :: float64

text \<open>
  Lines 119 to 134: the Series the samples are buffered in. \<open>fmt.Sprint\<close> is taken as a
  parameter, once for the device identifier and once for the multiplier.
\<close>

definition channelSeries ::
  "(int \<Rightarrow> string) \<Rightarrow> (float64 \<Rightarrow> string) \<Rightarrow> channel \<Rightarrow> scale \<Rightarrow> series" where
  "channelSeries Sprint_gid Sprint_mult ch scale =
     (let name = Channel_Name ch;
          name = (if name = [] then ''__total__'' else name)
      in \<lparr>Metric =
            \<lparr>Name = ''vue_kwh'',
             Labels = Some (fmap_of_list
               [(''dev_gid'', Sprint_gid (DeviceGID ch)),
                (''chan'', ChannelNum ch),
                (''name'', Channel_Name ch),
                (''chan_mult'', Sprint_mult (ChannelMultiplier ch)),
                (''scale'', scale)])\<rparr>,
          Samples = []\<rparr>)"

text \<open>
  Lines 140 to 157: the loop over the slots and the final flush. The state is the cursor
  \<open>start\<close>, the buffered \<open>series\<close>, the counter \<open>c\<close> and the Series handed to
  \<open>pusher.Push\<close> so far, in order. \<open>Push\<close> encodes its argument before it returns, so the
  pushed value is the Series as it is at the call.
\<close>

record export_state =
  st_start :: time
  st_series :: series
  st_c :: nat
  st_pushed :: "series list"

fun exportHistory_loop :: "scale \<Rightarrow> slot list \<Rightarrow> export_state \<Rightarrow> error + export_state" where
  "exportHistory_loop scale [] st = Inr st"
| "exportHistory_loop scale (s # found) st =
     (case Duration scale of
        Inl e \<Rightarrow> Inl e
      | Inr d \<Rightarrow>
          (let ts = st_start st;
               st = st\<lparr>st_start := Add (st_start st) d\<rparr>
           in case s of
                None \<Rightarrow> exportHistory_loop scale found st
              | Some x \<Rightarrow>
                  (let sample = \<lparr>Value = x, Timestamp = ts\<rparr>;
                       series = (st_series st)\<lparr>Samples := Samples (st_series st) @ [sample]\<rparr>;
                       st = st\<lparr>st_series := series, st_c := st_c st + 1\<rparr>
                   in if length (Samples series) > 1000
                      then exportHistory_loop scale found
                             (st\<lparr>st_pushed := st_pushed st @ [series],
                                st_series := series\<lparr>Samples := []\<rparr>\<rparr>)
                      else exportHistory_loop scale found st)))"

definition exportHistory_flush :: "export_state \<Rightarrow> export_state" where
  "exportHistory_flush st =
     (if length (Samples (st_series st)) > 0
      then st\<lparr>st_pushed := st_pushed st @ [st_series st]\<rparr>
      else st)"

definition pushSamples :: "scale \<Rightarrow> series \<Rightarrow> time \<Rightarrow> slot list \<Rightarrow> error + export_state" where
  "pushSamples scale series start found =
     (case exportHistory_loop scale found
             \<lparr>st_start = start, st_series = series, st_c = 0, st_pushed = []\<rparr> of
        Inl e \<Rightarrow> Inl e
      | Inr st \<Rightarrow> Inr (exportHistory_flush st))"

text \<open>
  The collaborators of \<open>exportHistory\<close>: the store's query (a function of what the query
  string is built from: the channel, the scale and the window \<open>until.Sub(since)\<close>), the
  upstream's page request, and \<open>fmt.Sprint\<close>. \<open>vm.Push()\<close> never returns an error.
  The result is the Series pushed, and the error or the number of new samples logged.
  When the loop over the slots panics nothing has been pushed: \<open>scale.Duration()\<close> fails
  at the first slot or at none.
\<close>

record env =
  vm_Query :: "channel \<Rightarrow> scale \<Rightarrow> duration \<Rightarrow> error + any_value"
  vue_GetHistoryPage :: "channel \<Rightarrow> scale \<Rightarrow> page_fetch"
  fmt_Sprint_gid :: "int \<Rightarrow> string"
  fmt_Sprint_mult :: "float64 \<Rightarrow> string"

definition exportHistory ::
  "env \<Rightarrow> channel \<Rightarrow> time \<Rightarrow> time \<Rightarrow> scale \<Rightarrow> series list \<times> (error + nat)" where
  "exportHistory e ch since until scale =
     (case vm_Query e ch scale (until - since) of
        Inl err \<Rightarrow> ([], Inl err)
      | Inr existing \<Rightarrow>
     (case resolveSince existing since scale of
        Inl err \<Rightarrow> ([], Inl err)
      | Inr since \<Rightarrow>
     (let series = channelSeries (fmt_Sprint_gid e) (fmt_Sprint_mult e) ch scale
      in case snd (GetHistory (vue_GetHistoryPage e ch scale) scale since until) of
           Inl err \<Rightarrow> ([], Inl err)
         | Inr (start, found) \<Rightarrow>
             (case pushSamples scale series start found of
                Inl err \<Rightarrow> ([], Inl err)
              | Inr st \<Rightarrow> (st_pushed st, Inr (st_c st))))))"

section \<open>Atom\<close>

text \<open>
  An Atom holds a value and its watchers. A watcher is a \<open>func(T, T)\<close>: what it does is
  its effect on the rest of the program, the world \<open>'w\<close>. Every method runs under the
  Atom's lock from its first statement to its last, so the methods are modelled one call
  at a time.
\<close>

type_synonym ('a, 'w) watcher = "'a \<Rightarrow> 'a \<Rightarrow> 'w \<Rightarrow> 'w"

record ('a, 'w) atom =
  atom_v :: 'a
  atom_watchers :: "('a, 'w) watcher list"

definition NewAtom :: "'a \<Rightarrow> ('a, 'w) atom" where
  "NewAtom x = \<lparr>atom_v = x, atom_watchers = []\<rparr>"

definition Load :: "('a, 'w) atom \<Rightarrow> 'a" where
  "Load a = atom_v a"

fun Reset_loop :: "('a, 'w) watcher list \<Rightarrow> 'a \<Rightarrow> 'a \<Rightarrow> 'w \<Rightarrow> 'w" where
  "Reset_loop [] old new world = world"
| "Reset_loop (w # ws) old new world = Reset_loop ws old new (w old new world)"

definition Reset :: "'a \<Rightarrow> ('a, 'w) atom \<Rightarrow> 'w \<Rightarrow> 'a \<times> ('a, 'w) atom \<times> 'w" where
  "Reset x a world =
     (let old = atom_v a;
          a = a\<lparr>atom_v := x\<rparr>
      in (old, a, Reset_loop (atom_watchers a) old (atom_v a) world))"

definition Watch :: "('a, 'w) watcher \<Rightarrow> ('a, 'w) atom \<Rightarrow> ('a, 'w) atom" where
  "Watch f a = a\<lparr>atom_watchers := atom_watchers a @ [f]\<rparr>"

text \<open>
  To observe the calls, the world is the list of the calls made so far, and watcher \<open>i\<close>
  appends its own call (its number and its two arguments). A program is a list of
  \<open>Watch\<close> and \<open>Reset\<close> calls on one Atom.
\<close>

type_synonym 'a calls = "(nat \<times> 'a \<times> 'a) list"

definition recorder :: "nat \<Rightarrow> ('a, 'a calls) watcher" where
  "recorder i old new calls = calls @ [(i, old, new)]"

datatype 'a atom_op = OpWatch nat | OpReset 'a

fun run_op :: "'a atom_op \<Rightarrow> ('a, 'a calls) atom \<times> 'a calls \<Rightarrow> ('a, 'a calls) atom \<times> 'a calls" where
  "run_op (OpWatch i) (a, calls) = (Watch (recorder i) a, calls)"
| "run_op (OpReset x) (a, calls) = snd (Reset x a calls)"

definition run_ops :: "'a atom_op list \<Rightarrow> ('a, 'a calls) atom \<times> 'a calls \<Rightarrow> ('a, 'a calls) atom \<times> 'a calls" where
  "run_ops ops st = foldl (\<lambda>st op. run_op op st) st ops"

fun watched :: "'a atom_op list \<Rightarrow> nat list" where
  "watched [] = []"
| "watched (OpWatch i # ops) = i # watched ops"
| "watched (OpReset _ # ops) = watched ops"

text \<open>
  Auxiliary to the statements about the paginator: the first-sample instant a page
  response reports, the instant the loop keeps after a page, and two upstreams to run the
  paginator on. The first answers every page of the one-minute scale with its 800 slots;
  the second reports the zero instant for the page that starts at the epoch.
\<close>

fun page_inst :: "error + (time \<times> slot list) \<Rightarrow> time" where
  "page_inst (Inr (pinst, _)) = pinst"
| "page_inst (Inl _) = zeroTime"

definition keep_inst :: "page_fetch \<Rightarrow> time \<Rightarrow> time \<times> time \<Rightarrow> time" where
  "keep_inst GetHistoryPage inst pg =
     (if IsZero inst then page_inst (GetHistoryPage (fst pg) (snd pg)) else inst)"

definition minute_pages :: page_fetch where
  "minute_pages a b = Inr (a, replicate (nat ((b - a) div Minute)) (Some (Finite 1)))"

definition zero_anchor_pages :: page_fetch where
  "zero_anchor_pages a b =
     (if a = 0 then Inr (zeroTime, [Some (Finite 1)]) else Inr (a, [Some (Finite 2)]))"

text \<open>
  A store with no series yet, an upstream that answers a page with one slot per minute,
  an upstream that answers its one page with 2500 samples, and the device-level channel
  (the one with the empty display name), to run \<open>exportHistory\<close> on.
\<close>

definition empty_store_env :: "page_fetch \<Rightarrow> env" where
  "empty_store_env GetHistoryPage =
     \<lparr>vm_Query = (\<lambda>ch scale window. Inr (AnySeriesList [])),
      vue_GetHistoryPage = (\<lambda>ch scale. GetHistoryPage),
      fmt_Sprint_gid = (\<lambda>gid. ''1234''),
      fmt_Sprint_mult = (\<lambda>mult. ''1'')\<rparr>"

definition page_of_2500 :: page_fetch where
  "page_of_2500 a b = Inr (a, replicate 2500 (Some (Finite 1)))"

definition total_channel :: channel where
  "total_channel =
     \<lparr>Channel_Name = [], DeviceGID = 1234, ChannelNum = ''1,2,3'',
      ChannelMultiplier = Finite 1\<rparr>"

section \<open>Auxiliary facts\<close>

subsection \<open>Scales\<close>


lemma scalePageSize_Some:
  "scalePageSize s = Some d \<longleftrightarrow>
     (s, d) \<in> {(Scale1Second, 4000000000000), (Scale1Minute, 48000000000000),
               (Scale1Hour, 2880000000000000)}"
  by (auto simp: scalePageSize_def split: if_splits)

lemma scalePageSize_pos: "scalePageSize s = Some d \<Longrightarrow> 0 < d"
  by (auto simp: scalePageSize_Some)

lemma PageSize_Inr: "PageSize scale = Inr p \<longleftrightarrow> scalePageSize scale = Some p"
  by (simp add: PageSize_def split: option.splits)



lemma Duration_Scale1Minute: "Duration Scale1Minute = Inr Minute"
  by (simp add: Duration_def scaleDurations_def)

subsection \<open>Finite maps, integers, the codec\<close>

lemma fmap_of_list_eval:
  "fmap_of_list [] = fmempty"
  "fmap_of_list ((k, v) # kvs) = fmupd k v (fmap_of_list kvs)"
  by (simp_all add: fmap_of_list_simps)

lemma fmpred_fmupd_iff:
  "fmpred P (fmupd k v m) \<longleftrightarrow> P k v \<and> fmpred P (fmdrop k m)"
  by (auto simp: fmpred_iff fmlookup_drop split: if_splits)

lemma fmdom_fempty_iff: "fmdom m = {||} \<longleftrightarrow> m = fmempty"
proof
  assume "fmdom m = {||}"
  then have "fmlookup m x = None" for x
    by (metis fmdom_notD fempty_iff)
  then show "m = fmempty"
    by (intro fmap_ext) simp
qed simp







lemma loop_pairs:
  "i + length vs \<le> length ts \<Longrightarrow>
   Series_UnmarshalJSON_loop ts i vs acc =
     Inr (acc @ map (\<lambda>(v, t). \<lparr>Value = v, Timestamp = time_UnixMilli t\<rparr>) (zip vs (drop i ts)))"
proof (induction vs arbitrary: i acc)
  case Nil
  then show ?case by simp
next
  case (Cons v vs)
  then have i: "i < length ts" by simp
  then have d: "drop i ts = ts ! i # drop (Suc i) ts"
    by (simp add: Cons_nth_drop_Suc)
  from Cons.prems have "Suc i + length vs \<le> length ts" by simp
  from Cons.IH [OF this] i d show ?case by simp
qed

lemma loop_short:
  "i \<le> length ts \<Longrightarrow> length ts < i + length vs \<Longrightarrow>
   Series_UnmarshalJSON_loop ts i vs acc = Inl (Panic ''runtime error: index out of range'')"
  by (induction vs arbitrary: i acc) auto



lemmas codec_defs =
  Series_roundtrip_def Series_MarshalJSON_def Series_UnmarshalJSON_def marshal_jseries_def
  Metric_MarshalJSON_def Metric_UnmarshalJSON_def marshal_string_map_def marshal_int64_def
  unmarshal_field_def zero_series_def zero_metric_def zero_jseries_def
  UnixMilli_def time_UnixMilli_def int64_wrap_def in_int64_def
  fmpred_fmupd_iff fmdrop_fmupd fmap_of_list_eval fmdom_fempty_iff


subsection \<open>Pages\<close>

lemma page_count_zero: "0 < p \<Longrightarrow> page_count start start p = 0"
  by (simp add: page_count_def)

lemma page_bounds_empty: "0 < p \<Longrightarrow> page_bounds start start p = []"
  by (simp add: page_bounds_def page_count_zero)

lemma page_count_last:
  assumes "0 < p" "start < end" "end \<le> start + p"
  shows "page_count start end p = 1"
proof -
  have "end - start + p - 1 = p + (end - start - 1)" by simp
  then have "(end - start + p - 1) div p = (end - start - 1) div p + 1"
    using assms(1) by (simp only: div_add_self1)
  also have "(end - start - 1) div p = 0"
    using assms by (intro div_pos_pos_trivial) auto
  finally show ?thesis by (simp add: page_count_def)
qed

lemma page_count_step:
  assumes "0 < p" "start + p < end"
  shows "page_count start end p = Suc (page_count (start + p) end p)"
proof -
  have "(end - start + p - 1) div p = (end - (start + p) + p - 1 + p) div p"
    by (simp add: algebra_simps)
  also have "\<dots> = (end - (start + p) + p - 1) div p + 1"
    using assms by simp
  finally have e: "(end - start + p - 1) div p = (end - (start + p) + p - 1) div p + 1" .
  have "0 \<le> (end - (start + p) + p - 1) div p"
    using assms by (intro pos_imp_zdiv_nonneg_iff [THEN iffD2]) auto
  with e show ?thesis
    by (simp add: page_count_def nat_add_distrib)
qed

lemma page_bounds_Cons:
  assumes "0 < p" "start < end"
  shows "page_bounds start end p =
           (start, min end (start + p)) # page_bounds (min end (start + p)) end p"
proof (cases "start + p < end")
  case True
  have a: "start + int (Suc i) * p = start + p + int i * p" for i
    by (simp add: algebra_simps)
  have b: "start + (int (Suc i) + 1) * p = start + p + (int i + 1) * p" for i
    by (simp add: algebra_simps)
  have first: "min end (start + p) = start + p"
    using True by simp
  have "page_bounds start end p =
      map (\<lambda>i. (start + int i * p, min end (start + (int i + 1) * p)))
        [0..<Suc (page_count (start + p) end p)]"
    using True assms by (simp only: page_bounds_def page_count_step)
  also have "\<dots> = (start, min end (start + p)) #
      map (\<lambda>i. (start + int (Suc i) * p, min end (start + (int (Suc i) + 1) * p)))
        [0..<page_count (start + p) end p]"
    by (simp only: map_upt_Suc) simp
  also have "\<dots> = (start, min end (start + p)) # page_bounds (start + p) end p"
    by (simp only: a b page_bounds_def)
  finally show ?thesis
    by (simp only: first)
next
  case False
  with assms have "page_count start end p = 1"
    by (intro page_count_last) auto
  with False assms show ?thesis
    by (simp add: page_bounds_def page_count_zero min_def)
qed








lemma GetHistory_loop_pages:
  assumes "PageSize scale = Inr p" "start \<le> end"
    "\<forall>pg \<in> set (page_bounds start end p). page_ok (GetHistoryPage (fst pg) (snd pg))"
  shows "GetHistory_loop GetHistoryPage scale end start inst samples requests =
    (requests @ page_bounds start end p,
     Inr (foldl (keep_inst GetHistoryPage) inst (page_bounds start end p),
          samples @ concat (map (\<lambda>pg. page_slots (GetHistoryPage (fst pg) (snd pg)))
                              (page_bounds start end p))))"
  using assms
proof (induction "nat (end - start)" arbitrary: start inst samples requests rule: less_induct)
  case less
  from less.prems(1) have p: "0 < p"
    by (auto simp: PageSize_Inr dest: scalePageSize_pos)
  show ?case
  proof (cases "start = end")
    case True
    with p show ?thesis
      by (subst GetHistory_loop.simps) (simp add: page_bounds_empty)
  next
    case False
    with less.prems(2) have lt: "start < end" by simp
    define pageEnd where "pageEnd = min end (start + p)"
    have pe: "(if After end (Add start p) then Add start p else end) = pageEnd"
      by (simp add: pageEnd_def After_def Add_def min_def)
    have pb: "page_bounds start end p = (start, pageEnd) # page_bounds pageEnd end p"
      unfolding pageEnd_def by (rule page_bounds_Cons [OF p lt])
    from less.prems(3) pb have "page_ok (GetHistoryPage start pageEnd)" by simp
    then obtain pinst psamples where r: "GetHistoryPage start pageEnd = Inr (pinst, psamples)"
      by (cases "GetHistoryPage start pageEnd") auto
    have m: "nat (end - pageEnd) < nat (end - start)"
      using lt p by (simp add: pageEnd_def min_def)
    have le: "pageEnd \<le> end" by (simp add: pageEnd_def)
    have ok: "\<forall>pg \<in> set (page_bounds pageEnd end p). page_ok (GetHistoryPage (fst pg) (snd pg))"
      using less.prems(3) pb by simp
    note IH = less.hyps [OF m less.prems(1) le ok]
    show ?thesis
      apply (subst GetHistory_loop.simps)
      apply (simp only: False less.prems(1) pe r Let_def sum.case prod.case if_True if_False
          not_False_eq_True)
      apply (subst IH)
      apply (simp add: pb r keep_inst_def)
      done
  qed
qed

lemma keep_inst_nonzero:
  "\<not> IsZero inst \<Longrightarrow> foldl (keep_inst GetHistoryPage) inst pgs = inst"
  by (induction pgs) (simp_all add: keep_inst_def)


lemma page_bounds_2000_minutes:
  "page_bounds 0 120000000000000 48000000000000 =
     [(0, 48000000000000), (48000000000000, 96000000000000), (96000000000000, 120000000000000)]"
  by code_simp

subsection \<open>The export loop\<close>

lemma exportHistory_loop_batches:
  assumes "Duration scale = Inr d" "length (Samples (st_series st)) \<le> 1000"
  shows "\<exists>st'. exportHistory_loop scale found st = Inr st' \<and>
    map (\<lambda>s. length (Samples s)) (st_pushed st') =
      map (\<lambda>s. length (Samples s)) (st_pushed st) @
      replicate ((length (Samples (st_series st)) + length (filter (\<lambda>s. s \<noteq> None) found)) div 1001) 1001 \<and>
    length (Samples (st_series st')) =
      (length (Samples (st_series st)) + length (filter (\<lambda>s. s \<noteq> None) found)) mod 1001 \<and>
    st_c st' = st_c st + length (filter (\<lambda>s. s \<noteq> None) found) \<and>
    Metric (st_series st') = Metric (st_series st) \<and>
    (\<forall>s \<in> set (st_pushed st'). s \<in> set (st_pushed st) \<or> Metric s = Metric (st_series st))"
  using assms(2)
proof (induction found arbitrary: st)
  case Nil
  then show ?case by simp
next
  case (Cons s found)
  let ?st1 = "st\<lparr>st_start := Add (st_start st) d\<rparr>"
  show ?case
  proof (cases s)
    case None
    from Cons.prems have "length (Samples (st_series ?st1)) \<le> 1000" by simp
    from Cons.IH [OF this] None assms(1) show ?thesis
      by (simp add: Let_def)
  next
    case (Some x)
    let ?series = "(st_series st)\<lparr>Samples := Samples (st_series st) @ [\<lparr>Value = x, Timestamp = st_start st\<rparr>]\<rparr>"
    let ?st2 = "?st1\<lparr>st_series := ?series, st_c := st_c st + 1\<rparr>"
    let ?n = "length (filter (\<lambda>s. s \<noteq> None) found)"
    let ?k = "length (Samples (st_series st))"
    show ?thesis
    proof (cases "?k = 1000")
      case True
      let ?st3 = "?st2\<lparr>st_pushed := st_pushed st @ [?series], st_series := ?series\<lparr>Samples := []\<rparr>\<rparr>"
      have step: "exportHistory_loop scale (s # found) st = exportHistory_loop scale found ?st3"
        using Some assms(1) True by (simp add: Let_def)
      have "length (Samples (st_series ?st3)) \<le> 1000" by simp
      from Cons.IH [OF this] obtain st' where st':
        "exportHistory_loop scale found ?st3 = Inr st'"
        "map (\<lambda>s. length (Samples s)) (st_pushed st') =
           map (\<lambda>s. length (Samples s)) (st_pushed ?st3) @ replicate (?n div 1001) 1001"
        "length (Samples (st_series st')) = ?n mod 1001"
        "st_c st' = st_c ?st3 + ?n"
        "Metric (st_series st') = Metric (st_series ?st3)"
        "\<forall>s \<in> set (st_pushed st'). s \<in> set (st_pushed ?st3) \<or> Metric s = Metric (st_series ?st3)"
        by auto
      have d1: "(?k + Suc ?n) div 1001 = Suc (?n div 1001)"
        using True by simp
      have m1: "(?k + Suc ?n) mod 1001 = ?n mod 1001"
        using True by simp
      have "map (\<lambda>s. length (Samples s)) (st_pushed st') =
          map (\<lambda>s. length (Samples s)) (st_pushed st) @ replicate ((?k + Suc ?n) div 1001) 1001"
        using st'(2) True d1 by (simp add: replicate_append_same)
      moreover have "length (Samples (st_series st')) = (?k + Suc ?n) mod 1001"
        using st'(3) m1 by simp
      moreover have "st_c st' = st_c st + Suc ?n"
        using st'(4) by simp
      moreover have "Metric (st_series st') = Metric (st_series st)"
        using st'(5) by simp
      moreover have "\<forall>s \<in> set (st_pushed st'). s \<in> set (st_pushed st) \<or> Metric s = Metric (st_series st)"
        using st'(6) by auto
      ultimately show ?thesis
        using step st'(1) Some by simp
    next
      case False
      with Cons.prems have lt: "?k < 1000" by simp
      have step: "exportHistory_loop scale (s # found) st = exportHistory_loop scale found ?st2"
        using Some assms(1) lt by (simp add: Let_def)
      have "length (Samples (st_series ?st2)) \<le> 1000" using lt by simp
      from Cons.IH [OF this] obtain st' where st':
        "exportHistory_loop scale found ?st2 = Inr st'"
        "map (\<lambda>s. length (Samples s)) (st_pushed st') =
           map (\<lambda>s. length (Samples s)) (st_pushed ?st2) @
           replicate ((length (Samples (st_series ?st2)) + ?n) div 1001) 1001"
        "length (Samples (st_series st')) = (length (Samples (st_series ?st2)) + ?n) mod 1001"
        "st_c st' = st_c ?st2 + ?n"
        "Metric (st_series st') = Metric (st_series ?st2)"
        "\<forall>s \<in> set (st_pushed st'). s \<in> set (st_pushed ?st2) \<or> Metric s = Metric (st_series ?st2)"
        by auto
      show ?thesis
        using step st' Some by simp
    qed
  qed
qed

lemma pushSamples_batches:
  assumes "Duration scale = Inr d" "Samples series = []"
  shows "\<exists>st. pushSamples scale series start found = Inr st \<and>
    map (\<lambda>s. length (Samples s)) (st_pushed st) =
      replicate (length (filter (\<lambda>s. s \<noteq> None) found) div 1001) 1001 @
      (if length (filter (\<lambda>s. s \<noteq> None) found) mod 1001 = 0 then []
       else [length (filter (\<lambda>s. s \<noteq> None) found) mod 1001]) \<and>
    st_c st = length (filter (\<lambda>s. s \<noteq> None) found) \<and>
    (\<forall>s \<in> set (st_pushed st). Metric s = Metric series)"
proof -
  let ?st0 = "\<lparr>st_start = start, st_series = series, st_c = 0, st_pushed = []\<rparr>"
  have "length (Samples (st_series ?st0)) \<le> 1000" using assms(2) by simp
  from exportHistory_loop_batches [OF assms(1) this, of found] assms(2)
  obtain st' where st':
    "exportHistory_loop scale found ?st0 = Inr st'"
    "map (\<lambda>s. length (Samples s)) (st_pushed st') =
       replicate (length (filter (\<lambda>s. s \<noteq> None) found) div 1001) 1001"
    "length (Samples (st_series st')) = length (filter (\<lambda>s. s \<noteq> None) found) mod 1001"
    "st_c st' = length (filter (\<lambda>s. s \<noteq> None) found)"
    "Metric (st_series st') = Metric series"
    "\<forall>s \<in> set (st_pushed st'). Metric s = Metric series"
    by auto
  then show ?thesis
    by (simp add: pushSamples_def exportHistory_flush_def)
qed

lemma exportHistory_loop_metric:
  "exportHistory_loop scale found st = Inr st' \<Longrightarrow>
   Metric (st_series st') = Metric (st_series st) \<and>
   (\<forall>s \<in> set (st_pushed st'). s \<in> set (st_pushed st) \<or> Metric s = Metric (st_series st))"
proof (induction found arbitrary: st)
  case Nil
  then show ?case by simp
next
  case (Cons s found)
  from Cons.prems obtain d where d: "Duration scale = Inr d"
    by (cases "Duration scale") auto
  show ?case
  proof (cases s)
    case None
    with Cons.prems d have
      "exportHistory_loop scale found (st\<lparr>st_start := Add (st_start st) d\<rparr>) = Inr st'"
      by (simp add: Let_def)
    from Cons.IH [OF this] show ?thesis by simp
  next
    case (Some x)
    let ?series = "(st_series st)\<lparr>Samples := Samples (st_series st) @ [\<lparr>Value = x, Timestamp = st_start st\<rparr>]\<rparr>"
    let ?st2 = "st\<lparr>st_start := Add (st_start st) d, st_series := ?series, st_c := st_c st + 1\<rparr>"
    show ?thesis
    proof (cases "length (Samples ?series) > 1000")
      case True
      with Cons.prems d Some have
        "exportHistory_loop scale found
           (?st2\<lparr>st_pushed := st_pushed st @ [?series], st_series := ?series\<lparr>Samples := []\<rparr>\<rparr>) = Inr st'"
        by (simp add: Let_def)
      from Cons.IH [OF this] show ?thesis by auto
    next
      case False
      with Cons.prems d Some have "exportHistory_loop scale found ?st2 = Inr st'"
        by (simp add: Let_def)
      from Cons.IH [OF this] show ?thesis by auto
    qed
  qed
qed

lemma pushSamples_metric:
  assumes "pushSamples scale series start found = Inr st"
  shows "\<forall>s \<in> set (st_pushed st). Metric s = Metric series"
proof -
  from assms obtain st' where st':
    "exportHistory_loop scale found
       \<lparr>st_start = start, st_series = series, st_c = 0, st_pushed = []\<rparr> = Inr st'"
    "st = exportHistory_flush st'"
    by (auto simp: pushSamples_def split: sum.splits)
  from exportHistory_loop_metric [OF st'(1)] st'(2) show ?thesis
    by (auto simp: exportHistory_flush_def split: if_splits)
qed

lemma channelSeries_Samples: "Samples (channelSeries Sprint_gid Sprint_mult ch scale) = []"
  by (simp add: channelSeries_def)

lemma channelSeries_name:
  "\<exists>ls. Labels (Metric (channelSeries Sprint_gid Sprint_mult ch scale)) = Some ls \<and>
        fmlookup ls ''name'' = Some (Channel_Name ch)"
  by (simp add: channelSeries_def fmap_of_list_simps)

lemma exportHistory_metric:
  "\<forall>s \<in> set (fst (exportHistory e ch since until scale)).
     Metric s = Metric (channelSeries (fmt_Sprint_gid e) (fmt_Sprint_mult e) ch scale)"
  by (auto simp: exportHistory_def Let_def split: sum.splits prod.splits dest: pushSamples_metric)

lemma GetHistory_page_of_2500:
  "snd (GetHistory page_of_2500 Scale1Minute 0 Minute) = Inr (0, replicate 2500 (Some (Finite 1)))"
  by (simp add: GetHistory_def GetHistory_loop.simps PageSize_def scalePageSize_def After_def
      Add_def page_of_2500_def IsZero_def zeroTime_def time_Unix_def)

lemma exportHistory_2500_sizes:
  "map (\<lambda>s. length (Samples s))
     (fst (exportHistory (empty_store_env page_of_2500) total_channel 0 Minute Scale1Minute)) =
   [1001, 1001, 498]"
proof -
  let ?series = "channelSeries (\<lambda>gid. ''1234'') (\<lambda>mult. ''1'') total_channel Scale1Minute"
  from pushSamples_batches [OF Duration_Scale1Minute
      channelSeries_Samples [of "\<lambda>gid. ''1234''" "\<lambda>mult. ''1''" total_channel Scale1Minute],
      where start = 0 and found = "replicate 2500 (Some (Finite 1))"]
  obtain st where st: "pushSamples Scale1Minute ?series 0 (replicate 2500 (Some (Finite 1))) = Inr st"
    "map (\<lambda>s. length (Samples s)) (st_pushed st) = [1001, 1001, 498]"
    by (auto simp: numeral_2_eq_2)
  have "exportHistory (empty_store_env page_of_2500) total_channel 0 Minute Scale1Minute =
      (st_pushed st, Inr (st_c st))"
    by (simp add: exportHistory_def empty_store_env_def resolveSince_def GetHistory_page_of_2500 st(1))
  with st(2) show ?thesis by simp
qed


subsection \<open>Atoms\<close>

lemma Reset_loop_recorders:
  "Reset_loop (map recorder is) old new calls = calls @ map (\<lambda>i. (i, old, new)) is"
  by (induction "is" arbitrary: calls) (simp_all add: recorder_def)

lemma run_ops_append: "run_ops (ops @ ops') st = run_ops ops' (run_ops ops st)"
  by (simp add: run_ops_def)

lemma atom_watchers_run_op:
  "atom_watchers (fst (run_op op (a, calls))) = atom_watchers a @ map recorder (watched [op])"
  by (cases op) (simp_all add: Watch_def Reset_def Let_def)

lemma watched_append: "watched (ops @ ops') = watched ops @ watched ops'"
  by (induction ops rule: watched.induct) simp_all

lemma atom_watchers_run_ops:
  "atom_watchers (fst (run_ops ops st)) = atom_watchers (fst st) @ map recorder (watched ops)"
proof (induction ops arbitrary: st rule: rev_induct)
  case Nil
  then show ?case by (simp add: run_ops_def)
next
  case (snoc op ops)
  obtain a calls where st': "run_ops ops st = (a, calls)"
    by (cases "run_ops ops st")
  have "atom_watchers (fst (run_ops (ops @ [op]) st)) = atom_watchers (fst (run_op op (a, calls)))"
    by (simp add: run_ops_def st' [unfolded run_ops_def])
  also have "\<dots> = atom_watchers a @ map recorder (watched [op])"
    by (rule atom_watchers_run_op)
  also have "atom_watchers a = atom_watchers (fst st) @ map recorder (watched ops)"
    using snoc [of st] st' by simp
  finally show ?case
    by (simp add: watched_append)
qed

section \<open>The wire codec\<close>




text \<open>
  C2. The claim asks for a decode error when the values and the timestamps of a document
  differ in length. The code has no such check: \<open>Series.UnmarshalJSON\<close> panics with an
  index out of range when the timestamps are fewer than the values, and succeeds, dropping
  the timestamps beyond the last value, when they are more. It returns an error only when
  \<open>json.Unmarshal\<close> does. The two documents evaluated are
  \<open>{"metric":{"__name__":"m"},"values":[1,2],"timestamps":[1000]}\<close> and
  \<open>{"metric":{"__name__":"m"},"values":[1],"timestamps":[1000,2000]}\<close>.
\<close>

theorem Series_UnmarshalJSON_length_mismatch:
  "Series_UnmarshalJSON b s =
     (case unmarshal_jseries b of
        Inl e \<Rightarrow> Inl e
      | Inr doc \<Rightarrow>
          if length (Timestamps doc) < length (Values doc)
          then Inl (Panic ''runtime error: index out of range'')
          else Inr \<lparr>Metric = doc_Metric doc,
                    Samples = Samples s @
                      map (\<lambda>(v, t). \<lparr>Value = v, Timestamp = time_UnixMilli t\<rparr>)
                        (zip (Values doc) (Timestamps doc))\<rparr>) \<and>
   Series_UnmarshalJSON
     (JObject (fmap_of_list
        [(''metric'', JObject (fmap_of_list [(''__name__'', JString ''m'')])),
         (''values'', JArray [JNumber 1, JNumber 2]),
         (''timestamps'', JArray [JNumber 1000])]))
     zero_series = Inl (Panic ''runtime error: index out of range'') \<and>
   Series_UnmarshalJSON
     (JObject (fmap_of_list
        [(''metric'', JObject (fmap_of_list [(''__name__'', JString ''m'')])),
         (''values'', JArray [JNumber 1]),
         (''timestamps'', JArray [JNumber 1000, JNumber 2000])]))
     zero_series =
     Inr \<lparr>Metric = \<lparr>Name = ''m'', Labels = None\<rparr>,
          Samples = [\<lparr>Value = Finite 1, Timestamp = 1000000000\<rparr>]\<rparr>"
proof -
  have "Series_UnmarshalJSON b s =
     (case unmarshal_jseries b of
        Inl e \<Rightarrow> Inl e
      | Inr doc \<Rightarrow>
          if length (Timestamps doc) < length (Values doc)
          then Inl (Panic ''runtime error: index out of range'')
          else Inr \<lparr>Metric = doc_Metric doc,
                    Samples = Samples s @
                      map (\<lambda>(v, t). \<lparr>Value = v, Timestamp = time_UnixMilli t\<rparr>)
                        (zip (Values doc) (Timestamps doc))\<rparr>)"
  proof (cases "unmarshal_jseries b")
    case (Inl e)
    then show ?thesis by (simp add: Series_UnmarshalJSON_def)
  next
    case (Inr doc)
    show ?thesis
    proof (cases "length (Timestamps doc) < length (Values doc)")
      case True
      then show ?thesis
        using Inr loop_short [of 0 "Timestamps doc" "Values doc" "Samples s"]
        by (simp add: Series_UnmarshalJSON_def)
    next
      case False
      then show ?thesis
        using Inr loop_pairs [of 0 "Values doc" "Timestamps doc" "Samples s"]
        by (simp add: Series_UnmarshalJSON_def)
    qed
  qed
  moreover have "Series_UnmarshalJSON
     (JObject (fmap_of_list
        [(''metric'', JObject (fmap_of_list [(''__name__'', JString ''m'')])),
         (''values'', JArray [JNumber 1, JNumber 2]),
         (''timestamps'', JArray [JNumber 1000])]))
     zero_series = Inl (Panic ''runtime error: index out of range'')"
    by (simp add: codec_defs)
  moreover have "Series_UnmarshalJSON
     (JObject (fmap_of_list
        [(''metric'', JObject (fmap_of_list [(''__name__'', JString ''m'')])),
         (''values'', JArray [JNumber 1]),
         (''timestamps'', JArray [JNumber 1000, JNumber 2000])]))
     zero_series =
     Inr \<lparr>Metric = \<lparr>Name = ''m'', Labels = None\<rparr>,
          Samples = [\<lparr>Value = Finite 1, Timestamp = 1000000000\<rparr>]\<rparr>"
    by (simp add: codec_defs)
  ultimately show ?thesis by blast
qed



section \<open>The history paginator\<close>



text \<open>
  C8, as amended. For a fetch of one page or more, when the first page reports a
  first-sample instant that is not the zero time, \<open>GetHistory\<close> returns that instant,
  whatever the later pages report.
\<close>

theorem GetHistory_first_anchor:
  assumes pageSize: "scalePageSize scale = Some p"
    and interval: "start < end"
    and ok: "\<forall>pg \<in> set (page_bounds start end p). page_ok (GetHistoryPage (fst pg) (snd pg))"
    and first: "GetHistoryPage start (min end (start + p)) = Inr (pinst, psamples)"
    and nonzero: "\<not> IsZero pinst"
  shows "\<exists>samples. snd (GetHistory GetHistoryPage scale start end) = Inr (pinst, samples)"
proof -
  from pageSize have p: "0 < p" by (rule scalePageSize_pos)
  from pageSize have ps: "PageSize scale = Inr p" by (simp add: PageSize_Inr)
  from interval have le: "start \<le> end" by simp
  note run = GetHistory_loop_pages [OF ps le ok, where inst = zeroTime and samples = "[]" and requests = "[]"]
  have "keep_inst GetHistoryPage zeroTime (start, min end (start + p)) = pinst"
    by (simp add: keep_inst_def first IsZero_def)
  then have "foldl (keep_inst GetHistoryPage) zeroTime (page_bounds start end p) = pinst"
    by (simp add: page_bounds_Cons [OF p interval] keep_inst_nonzero [OF nonzero])
  then show ?thesis
    by (simp add: GetHistory_def run)
qed

theorem GetHistory_first_anchor_witness:
  "\<not> IsZero 0 \<and>
   (\<exists>samples. snd (GetHistory minute_pages Scale1Minute 0 120000000000000) = Inr (0, samples))"
  using GetHistory_first_anchor [of Scale1Minute 48000000000000 0 120000000000000 minute_pages
      0 "replicate 800 (Some (Finite 1))"]
  unfolding page_bounds_2000_minutes
  by (simp add: scalePageSize_def minute_pages_def IsZero_def zeroTime_def time_Unix_def)

text \<open>
  When the first page reports the zero time, \<open>inst.IsZero()\<close> still holds at the second
  page, and the instant returned is the second page's.
\<close>

theorem GetHistory_zero_anchor:
  "snd (GetHistory zero_anchor_pages Scale1Minute 0 96000000000000) =
     Inr (48000000000000, [Some (Finite 1), Some (Finite 2)]) \<and>
   zero_anchor_pages 0 48000000000000 = Inr (zeroTime, [Some (Finite 1)]) \<and>
   zeroTime \<noteq> 48000000000000"
  by (simp add: GetHistory_def GetHistory_loop.simps PageSize_def scalePageSize_def After_def
      Add_def zero_anchor_pages_def IsZero_def zeroTime_def time_Unix_def)

section \<open>The export driver\<close>




text \<open>
  C3, as amended. A run of \<open>exportHistory\<close> whose history has \<open>n\<close> non-nil slots pushes
  \<open>n div 1001\<close> Series of 1001 samples each (the buffer is flushed when it holds more
  than 1000 samples), then the rest, \<open>n mod 1001\<close> samples, if there is one, and reports
  \<open>n\<close> new samples. For 2500 samples: three pushes, of 1001, 1001 and 498 samples.
\<close>

theorem exportHistory_flushes:
  assumes query: "vm_Query e ch scale (until - since) = Inr existing"
    and resume: "resolveSince existing since scale = Inr since'"
    and history: "snd (GetHistory (vue_GetHistoryPage e ch scale) scale since' until) = Inr (start, found)"
    and duration: "Duration scale = Inr d"
  shows "map (\<lambda>s. length (Samples s)) (fst (exportHistory e ch since until scale)) =
      replicate (length (filter (\<lambda>s. s \<noteq> None) found) div 1001) 1001 @
      (if length (filter (\<lambda>s. s \<noteq> None) found) mod 1001 = 0 then []
       else [length (filter (\<lambda>s. s \<noteq> None) found) mod 1001]) \<and>
    snd (exportHistory e ch since until scale) = Inr (length (filter (\<lambda>s. s \<noteq> None) found)) \<and>
    (length (filter (\<lambda>s. s \<noteq> None) found) = 2500 \<longrightarrow>
       map (\<lambda>s. length (Samples s)) (fst (exportHistory e ch since until scale)) =
         [1001, 1001, 498])"
proof -
  let ?series = "channelSeries (fmt_Sprint_gid e) (fmt_Sprint_mult e) ch scale"
  from pushSamples_batches [OF duration
      channelSeries_Samples [of "fmt_Sprint_gid e" "fmt_Sprint_mult e" ch scale],
      where start = start and found = found]
  obtain st where st: "pushSamples scale ?series start found = Inr st"
    "map (\<lambda>s. length (Samples s)) (st_pushed st) =
      replicate (length (filter (\<lambda>s. s \<noteq> None) found) div 1001) 1001 @
      (if length (filter (\<lambda>s. s \<noteq> None) found) mod 1001 = 0 then []
       else [length (filter (\<lambda>s. s \<noteq> None) found) mod 1001])"
    "st_c st = length (filter (\<lambda>s. s \<noteq> None) found)"
    by blast
  have run: "exportHistory e ch since until scale = (st_pushed st, Inr (st_c st))"
    by (simp add: exportHistory_def query resume history st(1))
  have r: "replicate (2500 div 1001) (1001::nat) @
      (if 2500 mod 1001 = (0::nat) then [] else [2500 mod 1001]) = [1001, 1001, 498]"
    by (simp add: numeral_2_eq_2)
  from run st(2,3) r show ?thesis by auto
qed

theorem exportHistory_flushes_witness:
  "vm_Query (empty_store_env page_of_2500) total_channel Scale1Minute (Minute - 0) =
     Inr (AnySeriesList []) \<and>
   resolveSince (AnySeriesList []) 0 Scale1Minute = Inr 0 \<and>
   snd (GetHistory (vue_GetHistoryPage (empty_store_env page_of_2500) total_channel Scale1Minute)
          Scale1Minute 0 Minute) = Inr (0, replicate 2500 (Some (Finite 1))) \<and>
   Duration Scale1Minute = Inr Minute \<and>
   length (filter (\<lambda>s. s \<noteq> None) (replicate 2500 (Some (Finite 1)))) = 2500 \<and>
   map (\<lambda>s. length (Samples s))
     (fst (exportHistory (empty_store_env page_of_2500) total_channel 0 Minute Scale1Minute)) =
     [1001, 1001, 498] \<and>
   snd (exportHistory (empty_store_env page_of_2500) total_channel 0 Minute Scale1Minute) = Inr 2500"
  using exportHistory_flushes [of "empty_store_env page_of_2500" total_channel Scale1Minute Minute 0
      "AnySeriesList []" 0 0 "replicate 2500 (Some (Finite 1))" Minute]
  by (simp add: empty_store_env_def resolveSince_def GetHistory_page_of_2500 Duration_Scale1Minute
      numeral_2_eq_2)

text \<open>
  The pushes of a run with 2500 samples are not of 1000, 1000 and 500 samples.
\<close>

theorem exportHistory_2500_not_1000:
  "map (\<lambda>s. length (Samples s))
     (fst (exportHistory (empty_store_env page_of_2500) total_channel 0 Minute Scale1Minute)) =
     [1001, 1001, 498] \<and>
   [1001, 1001, 498] \<noteq> [1000, 1000, 500 :: nat]"
  using exportHistory_2500_sizes by simp

text \<open>
  C6. The claim asks for the label \<open>name=__total__\<close> on a channel whose display name is
  empty. \<open>exportHistory\<close> computes the substitute in the variable \<open>name\<close> and then builds
  the labels from \<open>ch.Name\<close>: every Series it pushes carries the channel's own display
  name under \<open>name\<close>, the empty string for the device-level channel. The run evaluated
  exports two minutes of that channel into an empty store.
\<close>

theorem exportHistory_name_label:
  "list_all
     (\<lambda>s. \<exists>ls. Labels (Metric s) = Some ls \<and> fmlookup ls ''name'' = Some (Channel_Name ch))
     (fst (exportHistory e ch since until scale)) \<and>
   exportHistory (empty_store_env minute_pages) total_channel 0 (2 * Minute) Scale1Minute =
     ([\<lparr>Metric =
          \<lparr>Name = ''vue_kwh'',
           Labels = Some (fmap_of_list
             [(''dev_gid'', ''1234''), (''chan'', ''1,2,3''), (''name'', []),
              (''chan_mult'', ''1''), (''scale'', ''1MIN'')])\<rparr>,
        Samples = [\<lparr>Value = Finite 1, Timestamp = 0\<rparr>,
                   \<lparr>Value = Finite 1, Timestamp = Minute\<rparr>]\<rparr>],
      Inr 2)"
proof -
  have "list_all
     (\<lambda>s. \<exists>ls. Labels (Metric s) = Some ls \<and> fmlookup ls ''name'' = Some (Channel_Name ch))
     (fst (exportHistory e ch since until scale))"
    using exportHistory_metric [of e ch since until scale]
      channelSeries_name [of "fmt_Sprint_gid e" "fmt_Sprint_mult e" ch scale]
    by (auto simp: list_all_iff)
  moreover have "snd (GetHistory minute_pages Scale1Minute 0 (2 * Minute)) =
      Inr (0, [Some (Finite 1), Some (Finite 1)])"
    by (simp add: GetHistory_def GetHistory_loop.simps PageSize_def scalePageSize_def After_def
        Add_def minute_pages_def IsZero_def zeroTime_def time_Unix_def numeral_2_eq_2)
  then have "exportHistory (empty_store_env minute_pages) total_channel 0 (2 * Minute) Scale1Minute =
     ([\<lparr>Metric =
          \<lparr>Name = ''vue_kwh'',
           Labels = Some (fmap_of_list
             [(''dev_gid'', ''1234''), (''chan'', ''1,2,3''), (''name'', []),
              (''chan_mult'', ''1''), (''scale'', ''1MIN'')])\<rparr>,
        Samples = [\<lparr>Value = Finite 1, Timestamp = 0\<rparr>,
                   \<lparr>Value = Finite 1, Timestamp = Minute\<rparr>]\<rparr>],
      Inr 2)"
    by (simp add: exportHistory_def empty_store_env_def resolveSince_def total_channel_def
        channelSeries_def pushSamples_def exportHistory_flush_def Duration_Scale1Minute Add_def
        Let_def)
  ultimately show ?thesis by simp
qed

section \<open>Atom\<close>

text \<open>
  C10. After any sequence of \<open>Watch\<close> and \<open>Reset\<close> calls on a new Atom, \<open>Reset x\<close>
  returns the value \<open>Load\<close> returned just before, \<open>Load\<close> returns \<open>x\<close> afterwards, and
  the calls made during the \<open>Reset\<close> are exactly one call of each watcher registered
  before it, in the order of registration, each with the old and the new value.
\<close>

theorem Atom_Reset_notifies:
  "Reset x (fst (run_ops ops (NewAtom x0, []))) (snd (run_ops ops (NewAtom x0, []))) =
     (Load (fst (run_ops ops (NewAtom x0, []))),
      (fst (run_ops ops (NewAtom x0, [])))\<lparr>atom_v := x\<rparr>,
      snd (run_ops ops (NewAtom x0, [])) @
        map (\<lambda>i. (i, Load (fst (run_ops ops (NewAtom x0, []))), x)) (watched ops)) \<and>
   Load ((fst (run_ops ops (NewAtom x0, [])))\<lparr>atom_v := x\<rparr>) = x"
proof -
  have "atom_watchers (fst (run_ops ops (NewAtom x0, []))) = map recorder (watched ops)"
    by (simp add: atom_watchers_run_ops NewAtom_def)
  then show ?thesis
    by (simp add: Reset_def Load_def Let_def Reset_loop_recorders)
qed

section \<open>Scale lookups\<close>

text \<open>
  C9. A Scale with a defined duration (second, minute, hour, day, week) gets that duration
  back from \<open>Duration\<close>, and a Scale with a defined page size (second, minute, hour) gets
  that page size back from \<open>PageSize\<close>: for them the failure branch is not taken. Every
  other Scale string (month and year for the duration; day, week, month and year for the
  page size; any unrecognised string for both) makes the call panic at once: the result is
  never a recoverable error.
\<close>

theorem Scale_lookup_defined_or_panics:
  "(s \<in> {Scale1Second, Scale1Minute, Scale1Hour, Scale1Day, Scale1Week} \<longrightarrow>
      (\<exists>d. scaleDurations s = Some d \<and> Duration s = Inr d)) \<and>
   (s \<notin> {Scale1Second, Scale1Minute, Scale1Hour, Scale1Day, Scale1Week} \<longrightarrow>
      is_panic (Duration s)) \<and>
   (s \<in> {Scale1Second, Scale1Minute, Scale1Hour} \<longrightarrow>
      (\<exists>d. scalePageSize s = Some d \<and> PageSize s = Inr d)) \<and>
   (s \<notin> {Scale1Second, Scale1Minute, Scale1Hour} \<longrightarrow>
      is_panic (PageSize s)) \<and>
   \<not> is_error (Duration s) \<and> \<not> is_error (PageSize s) \<and>
   Duration Scale1Second = Inr 1000000000 \<and>
   Duration Scale1Minute = Inr 60000000000 \<and>
   Duration Scale1Hour = Inr 3600000000000 \<and>
   Duration Scale1Day = Inr 86400000000000 \<and>
   Duration Scale1Week = Inr 604800000000000 \<and>
   is_panic (Duration Scale1Month) \<and> is_panic (Duration Sscale1Year) \<and>
   PageSize Scale1Second = Inr 4000000000000 \<and>
   PageSize Scale1Minute = Inr 48000000000000 \<and>
   PageSize Scale1Hour = Inr 2880000000000000 \<and>
   is_panic (PageSize Scale1Day) \<and> is_panic (PageSize Scale1Week) \<and>
   is_panic (PageSize Scale1Month) \<and> is_panic (PageSize Sscale1Year)"
  by (auto simp: Duration_def PageSize_def scaleDurations_def scalePageSize_def
      split: option.splits if_splits)

theorem Scale_lookup_witness:
  "Duration ''1MIN'' = Inr 60000000000 \<and> PageSize ''1MIN'' = Inr 48000000000000 \<and>
   is_panic (Duration ''fortnight'') \<and> is_panic (PageSize ''fortnight'')"
  using Scale_lookup_defined_or_panics [of "''1MIN''"]
    Scale_lookup_defined_or_panics [of "''fortnight''"]
  by (simp add: Duration_def PageSize_def scaleDurations_def scalePageSize_def)

end
